theory Spec2Isabelle
  imports Main "HOL-Library.Char_ord" "HOL-Library.List_Lexorder" "HOL-Library.Word"
begin

section \<open>The task configuration (driver.go, \<open>TaskConfig\<close>)\<close>

text \<open>
  The Go struct \<open>TaskConfig\<close>, field by field and in the order of the source.
  \<open>KillSignal\<close> is a \<open>uint32\<close>, \<open>OOMScoreAdjust\<close> a Go \<open>int\<close> (64 bits on the
  platforms systemd runs on). \<open>Environment\<close> is a Go \<open>map[string]string\<close>: it is
  represented by the list of its entries, in whatever order the runtime holds them; the
  map itself is \<open>map_of\<close> of that list.
\<close>

record TaskConfig =
  Image :: string
  Boot :: bool
  Ephemeral :: bool
  ProcessTwo :: bool
  Parameters :: "string list"
  Environment :: "(string \<times> string) list"
  User :: string
  WorkingDirectory :: string
  PivotRoot :: string
  Capability :: "string list"
  DropCapability :: "string list"
  NoNewPrivileges :: bool
  KillSignal :: "32 word"
  Personality :: string
  MachineID :: string
  PrivateUsers :: string
  NotifyReady :: bool
  SystemCallFilter :: "string list"
  LimitCPU :: string
  LimitFSIZE :: string
  LimitDATA :: string
  LimitSTACK :: string
  LimitCORE :: string
  LimitRSS :: string
  LimitNOFILE :: string
  LimitAS :: string
  LimitNPROC :: string
  LimitMEMLOCK :: string
  LimitLOCKS :: string
  LimitSIGPENDING :: string
  LimitMSGQUEUE :: string
  LimitNICE :: string
  LimitRTPRIO :: string
  LimitRTTIME :: string
  OOMScoreAdjust :: "64 word"
  CPUAffinity :: "string list"
  Hostname :: string
  ResolvConf :: string
  Timezone :: string
  LinkJournal :: string
  ReadOnly :: bool
  Volatile :: string
  Bind :: "string list"
  BindReadOnly :: "string list"
  TemporaryFileSystem :: "string list"
  Inaccessible :: "string list"
  Overlay :: "string list list"
  OverlayReadOnly :: "string list list"
  PrivateUsersChown :: bool
  Private :: bool
  VirtualEthernet :: bool
  VirtualEthernetExtra :: "string list"
  Interface :: "string list"
  MACVLAN :: "string list"
  IPVLAN :: "string list"
  Bridge :: string
  Zone :: string
  Port :: "string list"

text \<open>The zero value of the struct: what Go gives every field that a literal leaves out.\<close>

definition zeroTaskConfig :: TaskConfig where
  "zeroTaskConfig = \<lparr>
     Image = [], Boot = False, Ephemeral = False, ProcessTwo = False, Parameters = [],
     Environment = [], User = [], WorkingDirectory = [], PivotRoot = [], Capability = [],
     DropCapability = [], NoNewPrivileges = False, KillSignal = 0, Personality = [],
     MachineID = [], PrivateUsers = [], NotifyReady = False, SystemCallFilter = [],
     LimitCPU = [], LimitFSIZE = [], LimitDATA = [], LimitSTACK = [], LimitCORE = [],
     LimitRSS = [], LimitNOFILE = [], LimitAS = [], LimitNPROC = [], LimitMEMLOCK = [],
     LimitLOCKS = [], LimitSIGPENDING = [], LimitMSGQUEUE = [], LimitNICE = [],
     LimitRTPRIO = [], LimitRTTIME = [], OOMScoreAdjust = 0, CPUAffinity = [],
     Hostname = [], ResolvConf = [], Timezone = [], LinkJournal = [], ReadOnly = False,
     Volatile = [], Bind = [], BindReadOnly = [], TemporaryFileSystem = [],
     Inaccessible = [], Overlay = [], OverlayReadOnly = [], PrivateUsersChown = False,
     Private = False, VirtualEthernet = False, VirtualEthernetExtra = [], Interface = [],
     MACVLAN = [], IPVLAN = [], Bridge = [], Zone = [], Port = [] \<rparr>"

section \<open>The template actions (template.go)\<close>

text \<open>\<open>strings.Join\<close>, the function the template calls \<open>join\<close>.\<close>

fun join :: "string list \<Rightarrow> string \<Rightarrow> string" where
  "join [] sep = []"
| "join [x] sep = x"
| "join (x # y # ys) sep = x @ sep @ join (y # ys) sep"

text \<open>The action \<open>{{if .F}}on{{else}}off{{end}}\<close>.\<close>

definition onoff :: "bool \<Rightarrow> string" where
  "onoff b = (if b then ''on'' else ''off'')"

text \<open>
  How the template prints an integer field (\<open>{{ .KillSignal }}\<close>): \<open>fmt\<close>'s default
  format, the decimal digits, for a negative number after a minus sign.
\<close>

fun digitChar :: "nat \<Rightarrow> char" where
  "digitChar n = ''0123456789'' ! n"

fun formatUint :: "nat \<Rightarrow> string" where
  "formatUint n =
     (if n < 10 then [digitChar n] else formatUint (n div 10) @ [digitChar (n mod 10)])"

definition formatInt :: "int \<Rightarrow> string" where
  "formatInt i = (if i < 0 then CHR ''-'' # formatUint (nat (- i)) else formatUint (nat i))"

text \<open>
  \<open>{{range $k, $v := .Environment}}\<close>: the template visits the keys of a map in
  sorted order (byte-wise string comparison) and reads each key's value from the map.
\<close>

definition sortKeys :: "(string \<times> string) list \<Rightarrow> string list" where
  "sortKeys m = sort (remdups (map fst m))"

definition mapIndex :: "(string \<times> string) list \<Rightarrow> string \<Rightarrow> string" where
  "mapIndex m k = (case map_of m k of Some v \<Rightarrow> v | None \<Rightarrow> [])"

definition environmentLines :: "(string \<times> string) list \<Rightarrow> string list" where
  "environmentLines m = map (\<lambda>k. ''Environment='' @ k @ ''='' @ mapIndex m k) (sortKeys m)"

text \<open>
  A \<open>{{range $_, $v := .F}}\<close> block over a slice: one line \<open>key=element\<close> for each
  element, in the order of the slice.
\<close>

definition rangeLines :: "string \<Rightarrow> string list \<Rightarrow> string list" where
  "rangeLines key vs = map (\<lambda>v. key @ ''='' @ v) vs"

section \<open>The template (template.go, \<open>nspawnTemplate\<close>)\<close>

text \<open>
  The template text, line by line. Every \<open>range\<close> block opens with \<open>{{-\<close>, which
  removes the line break before it, and its body starts with a line break and ends at
  \<open>{{- end }}\<close>, which removes the one before it: so each round of the block writes a
  line break and then its line, and a block over an empty value writes nothing. The
  text after a block starts with a line break. Hence the output is a sequence of lines,
  each followed by a line break.
\<close>

definition execLines :: "TaskConfig \<Rightarrow> string list" where
  "execLines c =
     [''[Exec]'',
      ''Boot='' @ onoff (Boot c),
      ''Ephemeral='' @ onoff (Ephemeral c),
      ''ProcessTwo='' @ onoff (ProcessTwo c),
      ''Parameters='' @ join (Parameters c) '','']
     @ environmentLines (Environment c) @
     [''User='' @ User c,
      ''WorkingDirectory='' @ WorkingDirectory c,
      ''PivotRoot='' @ PivotRoot c,
      ''Capability='' @ join (Capability c) '' '',
      ''DropCapability='' @ join (DropCapability c) '' '',
      ''NoNewPrivileges='' @ onoff (NoNewPrivileges c),
      ''KillSignal='' @ formatUint (unat (KillSignal c)),
      ''Personality='' @ Personality c,
      ''MachineID='' @ MachineID c,
      ''PrivateUsers='' @ PrivateUsers c,
      ''NotifyReady='' @ onoff (NotifyReady c),
      ''SystemCallFilter='' @ join (SystemCallFilter c) '' '',
      ''LimitCPU='' @ LimitCPU c,
      ''LimitFSIZE='' @ LimitFSIZE c,
      ''LimitDATA='' @ LimitDATA c,
      ''LimitSTACK='' @ LimitSTACK c,
      ''LimitCORE='' @ LimitCORE c,
      ''LimitRSS='' @ LimitRSS c,
      ''LimitNOFILE='' @ LimitNOFILE c,
      ''LimitAS='' @ LimitAS c,
      ''LimitNPROC='' @ LimitNPROC c,
      ''LimitMEMLOCK='' @ LimitMEMLOCK c,
      ''LimitLOCKS='' @ LimitLOCKS c,
      ''LimitSIGPENDING='' @ LimitSIGPENDING c,
      ''LimitMSGQUEUE='' @ LimitMSGQUEUE c,
      ''LimitNICE='' @ LimitNICE c,
      ''LimitRTPRIO='' @ LimitRTPRIO c,
      ''LimitRTTIME='' @ LimitRTTIME c,
      ''OOMScoreAdjust='' @ formatInt (sint (OOMScoreAdjust c)),
      ''CPUAffinity='' @ join (CPUAffinity c) '','',
      ''Hostname='' @ Hostname c,
      ''ResolvConf='' @ ResolvConf c,
      ''Timezone='' @ Timezone c,
      ''LinkJournal='' @ LinkJournal c,
      '''']"

definition filesLines :: "TaskConfig \<Rightarrow> string list" where
  "filesLines c =
     [''[Files]'',
      ''ReadOnly='' @ onoff (ReadOnly c),
      ''Volatile='' @ Volatile c]
     @ rangeLines ''Bind'' (Bind c)
     @ rangeLines ''BindReadOnly'' (BindReadOnly c)
     @ rangeLines ''TemporaryFileSystem'' (TemporaryFileSystem c)
     @ rangeLines ''Inaccessible'' (Inaccessible c)
     @ rangeLines ''Overlay'' (map (\<lambda>v. join v '':'') (Overlay c))
     @ rangeLines ''OverlayReadOnly'' (map (\<lambda>v. join v '':'') (OverlayReadOnly c)) @
     [''PrivateUsersChown='' @ onoff (PrivateUsersChown c),
      '''']"

definition networkLines :: "TaskConfig \<Rightarrow> string list" where
  "networkLines c =
     [''[Network]'',
      ''Private='' @ onoff (Private c),
      ''VirtualEthernet='' @ onoff (VirtualEthernet c)]
     @ rangeLines ''VirtualEthernetExtra'' (VirtualEthernetExtra c) @
     [''Interface='' @ join (Parameters c) '' '',
      ''MACVLAN='' @ join (MACVLAN c) '' '',
      ''IPVLAN='' @ join (IPVLAN c) '' '',
      ''Bridge='' @ Bridge c,
      ''Zone='' @ Zone c]
     @ rangeLines ''Port'' (Port c)"

definition unitLines :: "TaskConfig \<Rightarrow> string list" where
  "unitLines c = execLines c @ filesLines c @ networkLines c"

text \<open>A sequence of lines as text: every line followed by a line break.\<close>

definition unlines :: "string list \<Rightarrow> string" where
  "unlines ls = concat (map (\<lambda>l. l @ [CHR 0x0A]) ls)"

text \<open>\<open>tmpl.Execute\<close> into a buffer: the bytes the template writes for a configuration.\<close>

definition render :: "TaskConfig \<Rightarrow> string" where
  "render c = unlines (unitLines c)"

text \<open>The configuration of \<open>TestTemplate\<close> (template_test.go).\<close>

definition testData :: TaskConfig where
  "testData = zeroTaskConfig \<lparr>
     Boot := True,
     Parameters := [''1'', ''2'', ''3''],
     Environment := [(''a'', ''b''), (''1'', ''2'')],
     User := ''abc'',
     Capability := [''1'', ''2'', ''3''],
     KillSignal := 127,
     OOMScoreAdjust := 1,
     Overlay := [[''1'', ''2'', ''3''], [''2'', ''4'', ''6'']] \<rparr>"

text \<open>The constant \<open>result\<close> of template_test.go: the text the test expects.\<close>

definition result :: string where
  "result = unlines
     [''[Exec]'', ''Boot=on'', ''Ephemeral=off'', ''ProcessTwo=off'', ''Parameters=1,2,3'',
      ''Environment=1=2'', ''Environment=a=b'', ''User=abc'', ''WorkingDirectory='',
      ''PivotRoot='', ''Capability=1 2 3'', ''DropCapability='', ''NoNewPrivileges=off'',
      ''KillSignal=127'', ''Personality='', ''MachineID='', ''PrivateUsers='',
      ''NotifyReady=off'', ''SystemCallFilter='', ''LimitCPU='', ''LimitFSIZE='',
      ''LimitDATA='', ''LimitSTACK='', ''LimitCORE='', ''LimitRSS='', ''LimitNOFILE='',
      ''LimitAS='', ''LimitNPROC='', ''LimitMEMLOCK='', ''LimitLOCKS='',
      ''LimitSIGPENDING='', ''LimitMSGQUEUE='', ''LimitNICE='', ''LimitRTPRIO='',
      ''LimitRTTIME='', ''OOMScoreAdjust=1'', ''CPUAffinity='', ''Hostname='',
      ''ResolvConf='', ''Timezone='', ''LinkJournal='', '''',
      ''[Files]'', ''ReadOnly=off'', ''Volatile='', ''Overlay=1:2:3'', ''Overlay=2:4:6'',
      ''PrivateUsersChown=off'', '''',
      ''[Network]'', ''Private=off'', ''VirtualEthernet=off'', ''Interface=1 2 3'',
      ''MACVLAN='', ''IPVLAN='', ''Bridge='', ''Zone='']"

text \<open>
  Reading the output back: the directive a line belongs to is the text before its first
  \<open>=\<close>, and a decimal numeral denotes a number.
\<close>

definition lineKey :: "string \<Rightarrow> string" where
  "lineKey l = takeWhile (\<lambda>ch. ch \<noteq> CHR ''='') l"

definition decimalValue :: "string \<Rightarrow> nat" where
  "decimalValue s = foldl (\<lambda>a ch. 10 * a + (of_char ch - 48)) 0 s"

text \<open>
  The lines of a text: the pieces that end at a line break (and what follows the last
  line break, if anything does).
\<close>

fun splitLines :: "string \<Rightarrow> string list" where
  "splitLines [] = []"
| "splitLines (ch # cs) =
     (if ch = CHR 0x0A then [] # splitLines cs
      else (case splitLines cs of [] \<Rightarrow> [[ch]] | l # ls \<Rightarrow> (ch # l) # ls))"

text \<open>
  The strings of a configuration that the template writes as they are: the values of
  the string fields, the elements of the lists and the keys and values of the
  environment. (\<open>Image\<close> and \<open>Interface\<close> are not written.) \<open>text/template\<close> does
  not escape them, so a line break inside one of them starts a new line of the unit.
\<close>

definition printedValues :: "TaskConfig \<Rightarrow> string list" where
  "printedValues c =
     Parameters c @ map fst (Environment c) @ map snd (Environment c)
     @ [User c, WorkingDirectory c, PivotRoot c] @ Capability c @ DropCapability c
     @ [Personality c, MachineID c, PrivateUsers c] @ SystemCallFilter c
     @ [LimitCPU c, LimitFSIZE c, LimitDATA c, LimitSTACK c, LimitCORE c, LimitRSS c,
        LimitNOFILE c, LimitAS c, LimitNPROC c, LimitMEMLOCK c, LimitLOCKS c,
        LimitSIGPENDING c, LimitMSGQUEUE c, LimitNICE c, LimitRTPRIO c, LimitRTTIME c]
     @ CPUAffinity c @ [Hostname c, ResolvConf c, Timezone c, LinkJournal c, Volatile c]
     @ Bind c @ BindReadOnly c @ TemporaryFileSystem c @ Inaccessible c
     @ concat (Overlay c) @ concat (OverlayReadOnly c) @ VirtualEthernetExtra c
     @ MACVLAN c @ IPVLAN c @ [Bridge c, Zone c] @ Port c"

definition noLineBreak :: "TaskConfig \<Rightarrow> bool" where
  "noLineBreak c = list_all (\<lambda>v. CHR 0x0A \<notin> set v) (printedValues c)"

section \<open>Machines (machine.go)\<close>

text \<open>The struct \<open>Machine\<close>; a \<open>time.Time\<close> is kept as a number of microseconds.\<close>

record Machine =
  Name :: string
  ID :: "8 word list"
  Timestamp :: nat
  TimestampMonotonic :: nat
  Service :: string
  Unit :: string
  Leader :: int
  Class :: string
  RootDirectory :: string
  NetworkInterfaces :: "int list"
  State :: string

definition MachineStateOpening :: string where
  "MachineStateOpening = ''opening''"

definition MachineStateRunning :: string where
  "MachineStateRunning = ''running''"

definition MachineStateClosing :: string where
  "MachineStateClosing = ''closing''"

text \<open>
  The two fields of Nomad's \<open>drivers.TaskConfig\<close> that \<open>CreateMachine\<close> reads.
\<close>

record drivers_TaskConfig =
  TaskName :: string
  AllocID :: string

text \<open>
  \<open>fmt.Sprintf("%s-%s", strings.Replace(cfg.Name, "/", "_", -1), cfg.AllocID)\<close>:
  the old and the new string are single bytes, so the replacement works byte by byte.
\<close>

definition replaceSlash :: "string \<Rightarrow> string" where
  "replaceSlash s = map (\<lambda>ch. if ch = CHR ''/'' then CHR ''_'' else ch) s"

definition machineName :: "drivers_TaskConfig \<Rightarrow> string" where
  "machineName cfg = replaceSlash (TaskName cfg) @ ''-'' @ AllocID cfg"

definition nspawnPath :: "string \<Rightarrow> string" where
  "nspawnPath name = ''/etc/systemd/nspawn/'' @ name"

definition serviceName :: "string \<Rightarrow> string" where
  "serviceName name = ''systemd-nspawn@'' @ name @ ''.service''"

section \<open>The services \<open>CreateMachine\<close> calls\<close>

text \<open>
  A Go \<open>error\<close> value, by its message. The answers of systemd-importd, of the file
  system and of systemd are inputs of the model: \<open>pullRaw\<close> answers \<open>PullRaw\<close> for an
  image and a local name with an error or the new transfer's id, \<open>listTransfers i\<close> is
  the answer to the \<open>i\<close>-th call of \<open>ListTransfers\<close> (an error or the ids of the active
  transfers), \<open>osCreate\<close> answers \<open>os.Create\<close> for a path, \<open>tmplExecute\<close> is the write
  error of \<open>tmpl.Execute\<close> with the number of bytes written before it, \<open>startUnit\<close>
  answers \<open>StartUnit\<close> for a unit name, and \<open>jobResult\<close> is the string systemd sends on
  the channel when the job ends.
\<close>

datatype error = Error string

record World =
  pullRaw :: "string \<Rightarrow> string \<Rightarrow> error + 32 word"
  listTransfers :: "nat \<Rightarrow> error + 32 word list"
  osCreate :: "string \<Rightarrow> error option"
  tmplExecute :: "(error \<times> nat) option"
  startUnit :: "string \<Rightarrow> error option"
  jobResult :: string

text \<open>
  What \<open>CreateMachine\<close> changes on the host: the image store of systemd-importd (a
  pull that importd accepts writes the image under the local name, whole or in part:
  the entry is the local name with the image pulled), the files by path, the units
  whose start systemd accepted, and the messages of \<open>d.logger.Error\<close>.
\<close>

record Host =
  imageStore :: "(string \<times> string) list"
  files :: "string \<rightharpoonup> string"
  startedUnits :: "string list"
  errorLog :: "string list"

text \<open>
  The inner loop of the wait: is the transfer's id among the listed ones?
\<close>

fun found :: "32 word list \<Rightarrow> 32 word \<Rightarrow> bool" where
  "found [] tid = False"
| "found (v # ts) tid = (if v = tid then True else found ts tid)"

text \<open>
  The outer loop (\<open>for { ... }\<close>, under the comment \<open>FIXME: So stupid, let's use
  signal instead.\<close>): list the transfers, return the error of a failed listing, leave
  the loop when the id is not listed, and list again otherwise. The loop has no bound,
  so it is a partial function: \<open>None\<close> is the loop that never ends, \<open>Some None\<close> the
  loop left without an error.
\<close>

partial_function (option) waitTransfer ::
  "(nat \<Rightarrow> error + 32 word list) \<Rightarrow> 32 word \<Rightarrow> nat \<Rightarrow> error option option" where
  "waitTransfer ls tid i =
     (case ls i of
        Inl err \<Rightarrow> Some (Some err)
      | Inr ts \<Rightarrow> if found ts tid then waitTransfer ls tid (Suc i) else Some None)"

text \<open>
  \<open>CreateMachine\<close>. Its results are named \<open>m\<close> and \<open>err\<close>; no statement assigns
  \<open>m\<close>, so every return gives the nil machine, \<open>None\<close>. The value is the pair of
  results with the host afterwards, or \<open>None\<close> when the call never returns.
\<close>

definition CreateMachine ::
  "World \<Rightarrow> Host \<Rightarrow> drivers_TaskConfig \<Rightarrow> TaskConfig
     \<Rightarrow> ((Machine option \<times> error option) \<times> Host) option" where
  "CreateMachine w h0 cfg taskConfig =
     (let name = machineName cfg in
      case pullRaw w (Image taskConfig) name of
        Inl err \<Rightarrow> Some ((None, Some err), h0)
      | Inr transId \<Rightarrow>
          (let h = h0\<lparr>imageStore := imageStore h0 @ [(name, Image taskConfig)]\<rparr> in
           case waitTransfer (listTransfers w) transId 0 of
             None \<Rightarrow> None
           | Some (Some err) \<Rightarrow> Some ((None, Some err), h)
           | Some None \<Rightarrow>
               (case osCreate w (nspawnPath name) of
                  Some err \<Rightarrow>
                    Some ((None, Some err),
                      h\<lparr>errorLog := errorLog h @ [''Create nspawn file failed'']\<rparr>)
                | None \<Rightarrow>
                    (case tmplExecute w of
                       Some (err, n) \<Rightarrow>
                         Some ((None, Some err),
                           h\<lparr>files := (files h)(nspawnPath name \<mapsto> take n (render taskConfig)),
                             errorLog := errorLog h @ [''Generate nspawn file failed'']\<rparr>)
                     | None \<Rightarrow>
                         (let h' = h\<lparr>files := (files h)(nspawnPath name \<mapsto> render taskConfig)\<rparr> in
                          case startUnit w (serviceName name) of
                            Some err \<Rightarrow>
                              Some ((None, Some err),
                                h'\<lparr>errorLog := errorLog h' @ [''Create machine unit failed'']\<rparr>)
                          | None \<Rightarrow>
                              (let h'' = h'\<lparr>startedUnits := startedUnits h' @ [serviceName name]\<rparr> in
                               if jobResult w \<noteq> ''done''
                               then Some ((None, None),
                                 h''\<lparr>errorLog := errorLog h'' @ [''Start machine unit failed'']\<rparr>)
                               else Some ((None, None), h'')))))))"

text \<open>Inputs for running \<open>CreateMachine\<close>: a task, an empty host, and answers.\<close>

definition webTask :: drivers_TaskConfig where
  "webTask = \<lparr> TaskName = ''web/api'', AllocID = ''a1'' \<rparr>"

definition emptyHost :: Host where
  "emptyHost = \<lparr> imageStore = [], files = Map.empty, startedUnits = [], errorLog = [] \<rparr>"

text \<open>
  Every call succeeds: the transfer (id 7) is listed once and gone at the second
  listing, and the job ends with \<open>job\<close>.
\<close>

definition goodWorld :: "string \<Rightarrow> World" where
  "goodWorld job = \<lparr>
     pullRaw = (\<lambda>image name. Inr 7),
     listTransfers = (\<lambda>i. if i = 0 then Inr [3, 7] else Inr [3]),
     osCreate = (\<lambda>path. None),
     tmplExecute = None,
     startUnit = (\<lambda>unit. None),
     jobResult = job \<rparr>"

text \<open>The transfer never leaves the list of active transfers.\<close>

definition stuckWorld :: World where
  "stuckWorld = (goodWorld ''done'') \<lparr> listTransfers := (\<lambda>i. Inr [7]) \<rparr>"

text \<open>systemd refuses to start the unit.\<close>

definition refusedWorld :: World where
  "refusedWorld = (goodWorld ''done'') \<lparr> startUnit := (\<lambda>unit. Some (Error ''refused'')) \<rparr>"

text \<open>systemd-importd rejects the pull.\<close>

definition noImageWorld :: World where
  "noImageWorld = (goodWorld ''done'') \<lparr> pullRaw := (\<lambda>image name. Inl (Error ''no such image'')) \<rparr>"

section \<open>The machine registry\<close>

text \<open>
  Modelled from the spec: the machine registry and its \<open>transition\<close> operation. The
  repository declares the three state names and leaves \<open>GetMachine\<close>, \<open>KillMachine\<close>
  and \<open>TerminateMachine\<close> as \<open>panic("implement me")\<close>; it has no registry. The order
  of the states is the spec's: Opening, then Running, then Closing.
\<close>

datatype registryError = DuplicateMachine | MachineNotFound | InvalidStateTransition

definition stateRank :: "string \<Rightarrow> nat option" where
  "stateRank s =
     (if s = MachineStateOpening then Some 0
      else if s = MachineStateRunning then Some 1
      else if s = MachineStateClosing then Some 2
      else None)"

text \<open>
  Modelled from the spec: a state change follows the order when both states are states
  of a machine and the new one comes later than the old one.
\<close>

definition movesForward :: "string \<Rightarrow> string \<Rightarrow> bool" where
  "movesForward old new =
     (case (stateRank old, stateRank new) of
        (Some a, Some b) \<Rightarrow> a < b
      | _ \<Rightarrow> False)"

text \<open>
  Modelled from the spec: \<open>transition(name, newState)\<close> applies the change only if it
  follows the order and signals \<open>InvalidStateTransition\<close> otherwise; a name that is
  not registered is \<open>MachineNotFound\<close>, as for \<open>lookup\<close>.
\<close>

definition transition ::
  "(string \<rightharpoonup> Machine) \<Rightarrow> string \<Rightarrow> string \<Rightarrow> registryError + (string \<rightharpoonup> Machine)" where
  "transition reg name newState =
     (case reg name of
        None \<Rightarrow> Inl MachineNotFound
      | Some m \<Rightarrow>
          if movesForward (State m) newState
          then Inr (reg(name \<mapsto> m\<lparr>State := newState\<rparr>))
          else Inl InvalidStateTransition)"

text \<open>A registered machine in a given state, for running \<open>transition\<close>.\<close>

definition machineIn :: "string \<Rightarrow> Machine" where
  "machineIn st = \<lparr> Name = ''web_api-a1'', ID = [], Timestamp = 0, TimestampMonotonic = 0,
     Service = ''systemd-nspawn'', Unit = ''systemd-nspawn@web_api-a1.service'', Leader = 1,
     Class = ''container'', RootDirectory = ''/var/lib/machines/web_api-a1'',
     NetworkInterfaces = [], State = st \<rparr>"

section \<open>The rendered unit text\<close>

lemma testData_lines:
  "unitLines testData =
     [''[Exec]'', ''Boot=on'', ''Ephemeral=off'', ''ProcessTwo=off'', ''Parameters=1,2,3'',
      ''Environment=1=2'', ''Environment=a=b'', ''User=abc'', ''WorkingDirectory='',
      ''PivotRoot='', ''Capability=1 2 3'', ''DropCapability='', ''NoNewPrivileges=off'',
      ''KillSignal=127'', ''Personality='', ''MachineID='', ''PrivateUsers='',
      ''NotifyReady=off'', ''SystemCallFilter='', ''LimitCPU='', ''LimitFSIZE='',
      ''LimitDATA='', ''LimitSTACK='', ''LimitCORE='', ''LimitRSS='', ''LimitNOFILE='',
      ''LimitAS='', ''LimitNPROC='', ''LimitMEMLOCK='', ''LimitLOCKS='',
      ''LimitSIGPENDING='', ''LimitMSGQUEUE='', ''LimitNICE='', ''LimitRTPRIO='',
      ''LimitRTTIME='', ''OOMScoreAdjust=1'', ''CPUAffinity='', ''Hostname='',
      ''ResolvConf='', ''Timezone='', ''LinkJournal='', '''',
      ''[Files]'', ''ReadOnly=off'', ''Volatile='', ''Overlay=1:2:3'', ''Overlay=2:4:6'',
      ''PrivateUsersChown=off'', '''',
      ''[Network]'', ''Private=off'', ''VirtualEthernet=off'', ''Interface=1 2 3'',
      ''MACVLAN='', ''IPVLAN='', ''Bridge='', ''Zone='']"
  by (simp add: unitLines_def execLines_def filesLines_def networkLines_def testData_def
      zeroTaskConfig_def environmentLines_def sortKeys_def mapIndex_def rangeLines_def
      onoff_def formatInt_def)

lemma lineKey_key: "CHR ''='' \<notin> set key \<Longrightarrow> lineKey (key @ CHR ''='' # v) = key"
  by (simp add: lineKey_def takeWhile_append)

lemma lineKey_rangeLines:
  "CHR ''='' \<notin> set key \<Longrightarrow> map lineKey (rangeLines key vs) = replicate (length vs) key"
  using lineKey_key[of key] by (induction vs) (simp_all add: rangeLines_def)

lemma lineKey_environmentLines:
  "map lineKey (environmentLines m) = replicate (length (sortKeys m)) ''Environment''"
proof -
  have key: "lineKey (''Environment='' @ k @ ''='' @ mapIndex m k) = ''Environment''" for k
    using lineKey_key[of "''Environment''"] by simp
  have "map lineKey (map (\<lambda>k. ''Environment='' @ k @ ''='' @ mapIndex m k) ks)
          = replicate (length ks) ''Environment''" for ks
    by (induction ks) (simp_all only: list.map length_Cons list.size replicate.simps key)
  then show ?thesis
    unfolding environmentLines_def .
qed

lemma execKeys:
  "map lineKey (execLines c) =
     [''[Exec]'', ''Boot'', ''Ephemeral'', ''ProcessTwo'', ''Parameters'']
     @ replicate (length (sortKeys (Environment c))) ''Environment'' @
     [''User'', ''WorkingDirectory'', ''PivotRoot'', ''Capability'', ''DropCapability'',
      ''NoNewPrivileges'', ''KillSignal'', ''Personality'', ''MachineID'', ''PrivateUsers'',
      ''NotifyReady'', ''SystemCallFilter'', ''LimitCPU'', ''LimitFSIZE'', ''LimitDATA'',
      ''LimitSTACK'', ''LimitCORE'', ''LimitRSS'', ''LimitNOFILE'', ''LimitAS'',
      ''LimitNPROC'', ''LimitMEMLOCK'', ''LimitLOCKS'', ''LimitSIGPENDING'',
      ''LimitMSGQUEUE'', ''LimitNICE'', ''LimitRTPRIO'', ''LimitRTTIME'',
      ''OOMScoreAdjust'', ''CPUAffinity'', ''Hostname'', ''ResolvConf'', ''Timezone'',
      ''LinkJournal'', '''']"
  unfolding execLines_def map_append lineKey_environmentLines
  by (simp add: lineKey_def)

lemma filesKeys:
  "map lineKey (filesLines c) =
     [''[Files]'', ''ReadOnly'', ''Volatile'']
     @ replicate (length (Bind c)) ''Bind''
     @ replicate (length (BindReadOnly c)) ''BindReadOnly''
     @ replicate (length (TemporaryFileSystem c)) ''TemporaryFileSystem''
     @ replicate (length (Inaccessible c)) ''Inaccessible''
     @ replicate (length (Overlay c)) ''Overlay''
     @ replicate (length (OverlayReadOnly c)) ''OverlayReadOnly'' @
     [''PrivateUsersChown'', '''']"
  unfolding filesLines_def map_append
  by (simp add: lineKey_rangeLines) (simp add: lineKey_def)

lemma networkKeys:
  "map lineKey (networkLines c) =
     [''[Network]'', ''Private'', ''VirtualEthernet'']
     @ replicate (length (VirtualEthernetExtra c)) ''VirtualEthernetExtra'' @
     [''Interface'', ''MACVLAN'', ''IPVLAN'', ''Bridge'', ''Zone'']
     @ replicate (length (Port c)) ''Port''"
  unfolding networkLines_def map_append
  by (simp add: lineKey_rangeLines) (simp add: lineKey_def)

lemma formatUint_nonempty: "formatUint n \<noteq> []"
  by (subst formatUint.simps) simp

lemma digitChar_value: "n < 10 \<Longrightarrow> of_char (digitChar n) - 48 = n"
proof -
  assume "n < 10"
  then have "n \<in> {0,1,2,3,4,5,6,7,8,9}" by auto
  then show ?thesis by (auto simp: nth_Cons')
qed

lemma decimalValue_formatUint: "decimalValue (formatUint n) = n"
proof (induction n rule: formatUint.induct)
  case (1 n)
  show ?case
  proof (cases "n < 10")
    case True
    then show ?thesis
      by (subst formatUint.simps) (simp add: decimalValue_def digitChar_value del: digitChar.simps)
  next
    case False
    with 1 have ih: "decimalValue (formatUint (n div 10)) = n div 10" by simp
    have "decimalValue (formatUint n) = 10 * decimalValue (formatUint (n div 10)) + (of_char (digitChar (n mod 10)) - 48)"
      using False by (subst formatUint.simps) (simp add: decimalValue_def del: digitChar.simps formatUint.simps)
    then show ?thesis
      using ih by (simp add: digitChar_value del: digitChar.simps)
  qed
qed

lemma map_of_eq_sortKeys: "map_of a = map_of b \<Longrightarrow> sortKeys a = sortKeys b"
proof -
  assume h: "map_of a = map_of b"
  have "set (map fst a) = set (map fst b)"
    using h by (metis dom_map_of_conv_image_fst set_map)
  then show ?thesis
    unfolding sortKeys_def
    by (metis sorted_list_of_set_sort_remdups)
qed

lemma environmentLines_map_of:
  "map_of a = map_of b \<Longrightarrow> environmentLines a = environmentLines b"
  by (simp add: environmentLines_def mapIndex_def map_of_eq_sortKeys[of a b])

lemma unitKeys:
  "map lineKey (unitLines c) =
     [''[Exec]'', ''Boot'', ''Ephemeral'', ''ProcessTwo'', ''Parameters'']
     @ replicate (length (sortKeys (Environment c))) ''Environment'' @
     [''User'', ''WorkingDirectory'', ''PivotRoot'', ''Capability'', ''DropCapability'',
      ''NoNewPrivileges'', ''KillSignal'', ''Personality'', ''MachineID'', ''PrivateUsers'',
      ''NotifyReady'', ''SystemCallFilter'', ''LimitCPU'', ''LimitFSIZE'', ''LimitDATA'',
      ''LimitSTACK'', ''LimitCORE'', ''LimitRSS'', ''LimitNOFILE'', ''LimitAS'',
      ''LimitNPROC'', ''LimitMEMLOCK'', ''LimitLOCKS'', ''LimitSIGPENDING'',
      ''LimitMSGQUEUE'', ''LimitNICE'', ''LimitRTPRIO'', ''LimitRTTIME'',
      ''OOMScoreAdjust'', ''CPUAffinity'', ''Hostname'', ''ResolvConf'', ''Timezone'',
      ''LinkJournal'', '''',
      ''[Files]'', ''ReadOnly'', ''Volatile'']
     @ replicate (length (Bind c)) ''Bind''
     @ replicate (length (BindReadOnly c)) ''BindReadOnly''
     @ replicate (length (TemporaryFileSystem c)) ''TemporaryFileSystem''
     @ replicate (length (Inaccessible c)) ''Inaccessible''
     @ replicate (length (Overlay c)) ''Overlay''
     @ replicate (length (OverlayReadOnly c)) ''OverlayReadOnly'' @
     [''PrivateUsersChown'', '''',
      ''[Network]'', ''Private'', ''VirtualEthernet'']
     @ replicate (length (VirtualEthernetExtra c)) ''VirtualEthernetExtra'' @
     [''Interface'', ''MACVLAN'', ''IPVLAN'', ''Bridge'', ''Zone'']
     @ replicate (length (Port c)) ''Port''"
  unfolding unitLines_def map_append execKeys filesKeys networkKeys by simp

lemma count_key:
  "length (filter (\<lambda>l. lineKey l = k) ls) = count_list (map lineKey ls) k"
  by (induction ls) simp_all

lemma count_list_replicate:
  "count_list (replicate n x) y = (if x = y then n else 0)"
  by (induction n) auto

lemma count_KillSignal: "count_list (map lineKey (unitLines c)) ''KillSignal'' = 1"
  unfolding unitKeys by (simp add: count_list_replicate)

lemma count_Bind: "count_list (map lineKey (unitLines c)) ''Bind'' = length (Bind c)"
  unfolding unitKeys by (simp add: count_list_replicate)

lemma KillSignal_line: "''KillSignal='' @ formatUint (unat (KillSignal c)) \<in> set (unitLines c)"
  by (simp add: unitLines_def execLines_def)

lemma OOMScoreAdjust_line:
  "''OOMScoreAdjust='' @ formatInt (sint (OOMScoreAdjust c)) \<in> set (unitLines c)"
  by (simp add: unitLines_def execLines_def)

lemma count_OOMScoreAdjust: "count_list (map lineKey (unitLines c)) ''OOMScoreAdjust'' = 1"
  unfolding unitKeys by (simp add: count_list_replicate)

lemma zero_lines:
  "unitLines zeroTaskConfig =
     [''[Exec]'', ''Boot=off'', ''Ephemeral=off'', ''ProcessTwo=off'', ''Parameters='',
      ''User='', ''WorkingDirectory='',
      ''PivotRoot='', ''Capability='', ''DropCapability='', ''NoNewPrivileges=off'',
      ''KillSignal=0'', ''Personality='', ''MachineID='', ''PrivateUsers='',
      ''NotifyReady=off'', ''SystemCallFilter='', ''LimitCPU='', ''LimitFSIZE='',
      ''LimitDATA='', ''LimitSTACK='', ''LimitCORE='', ''LimitRSS='', ''LimitNOFILE='',
      ''LimitAS='', ''LimitNPROC='', ''LimitMEMLOCK='', ''LimitLOCKS='',
      ''LimitSIGPENDING='', ''LimitMSGQUEUE='', ''LimitNICE='', ''LimitRTPRIO='',
      ''LimitRTTIME='', ''OOMScoreAdjust=0'', ''CPUAffinity='', ''Hostname='',
      ''ResolvConf='', ''Timezone='', ''LinkJournal='', '''',
      ''[Files]'', ''ReadOnly=off'', ''Volatile='',
      ''PrivateUsersChown=off'', '''',
      ''[Network]'', ''Private=off'', ''VirtualEthernet=off'', ''Interface='',
      ''MACVLAN='', ''IPVLAN='', ''Bridge='', ''Zone='']"
  by (simp add: unitLines_def execLines_def filesLines_def networkLines_def
      zeroTaskConfig_def environmentLines_def sortKeys_def mapIndex_def rangeLines_def
      onoff_def formatInt_def)

lemma sortKeys_sorted: "sorted (sortKeys m) \<and> distinct (sortKeys m) \<and> set (sortKeys m) = dom (map_of m)"
  by (simp add: sortKeys_def dom_map_of_conv_image_fst)

lemma sortKeys_dom: "sortKeys m = sorted_list_of_set (dom (map_of m))"
  by (simp add: sortKeys_def dom_map_of_conv_image_fst sorted_list_of_set_sort_remdups[symmetric])

lemma render_Environment:
  assumes "map_of e = map_of (Environment c)"
  shows "render (c\<lparr>Environment := e\<rparr>) = render c"
proof -
  have "execLines (c\<lparr>Environment := e\<rparr>) = execLines c"
    using environmentLines_map_of[OF assms] by (simp add: execLines_def)
  moreover have "filesLines (c\<lparr>Environment := e\<rparr>) = filesLines c"
    by (simp add: filesLines_def)
  moreover have "networkLines (c\<lparr>Environment := e\<rparr>) = networkLines c"
    by (simp add: networkLines_def)
  ultimately show ?thesis
    by (simp add: render_def unitLines_def)
qed

lemma environmentLines_entries:
  "environmentLines m =
     map (\<lambda>k. ''Environment='' @ k @ ''='' @ the (map_of m k))
       (sorted_list_of_set (dom (map_of m)))"
proof -
  have "mapIndex m k = the (map_of m k)" if "k \<in> set (sortKeys m)" for k
  proof -
    from that have "k \<in> dom (map_of m)" using sortKeys_sorted[of m] by simp
    then show ?thesis by (auto simp: mapIndex_def)
  qed
  then have "environmentLines m = map (\<lambda>k. ''Environment='' @ k @ ''='' @ the (map_of m k)) (sortKeys m)"
    unfolding environmentLines_def by simp
  then show ?thesis by (simp only: sortKeys_dom)
qed

lemma filter_key_rangeLines:
  "CHR ''='' \<notin> set key \<Longrightarrow> key \<noteq> k \<Longrightarrow> filter (\<lambda>l. lineKey l = k) (rangeLines key vs) = []"
  using lineKey_key[of key] by (induction vs) (simp_all add: rangeLines_def)

lemma filter_key_environmentLines:
  "filter (\<lambda>l. lineKey l = ''Environment'') (environmentLines m) = environmentLines m"
proof -
  have key: "lineKey (''Environment='' @ k @ ''='' @ mapIndex m k) = ''Environment''" for k
    using lineKey_key[of "''Environment''"] by simp
  have "filter (\<lambda>l. lineKey l = ''Environment'') (map (\<lambda>k. ''Environment='' @ k @ ''='' @ mapIndex m k) ks)
          = map (\<lambda>k. ''Environment='' @ k @ ''='' @ mapIndex m k) ks" for ks
    by (induction ks) (simp_all only: list.map filter.simps key simp_thms if_True)
  then show ?thesis
    unfolding environmentLines_def .
qed

lemma Environment_lines:
  "filter (\<lambda>l. lineKey l = ''Environment'') (unitLines c) = environmentLines (Environment c)"
proof -
  have e: "filter (\<lambda>l. lineKey l = ''Environment'') (execLines c) = environmentLines (Environment c)"
    unfolding execLines_def filter_append filter_key_environmentLines
    by (simp add: lineKey_def)
  have f: "filter (\<lambda>l. lineKey l = ''Environment'') (filesLines c) = []"
    unfolding filesLines_def filter_append
    by (simp add: filter_key_rangeLines) (simp add: lineKey_def)
  have n: "filter (\<lambda>l. lineKey l = ''Environment'') (networkLines c) = []"
    unfolding networkLines_def filter_append
    by (simp add: filter_key_rangeLines) (simp add: lineKey_def)
  show ?thesis
    unfolding unitLines_def filter_append e f n by simp
qed

lemma unlines_append: "unlines (xs @ ys) = unlines xs @ unlines ys"
  by (simp add: unlines_def)

lemma unlines_Cons: "unlines (x # xs) = x @ CHR 0x0A # unlines xs"
  by (simp add: unlines_def)




lemma DropCapability_line:
  "''DropCapability='' @ join (DropCapability c) '' '' \<in> set (unitLines c)"
  by (simp add: unitLines_def execLines_def)

subsection \<open>The text and its lines\<close>

lemma splitLines_line:
  "CHR 0x0A \<notin> set l \<Longrightarrow> splitLines (l @ CHR 0x0A # rest) = l # splitLines rest"
  by (induction l) auto

lemma splitLines_unlines:
  "list_all (\<lambda>l. CHR 0x0A \<notin> set l) ls \<Longrightarrow> splitLines (unlines ls) = ls"
  by (induction ls) (simp_all add: unlines_def splitLines_line)

lemma join_ok:
  "list_all (\<lambda>v. CHR 0x0A \<notin> set v) xs \<Longrightarrow> CHR 0x0A \<notin> set sep \<Longrightarrow> CHR 0x0A \<notin> set (join xs sep)"
  by (induction xs sep rule: join.induct) simp_all

lemma digitChar_ok: "n < 10 \<Longrightarrow> digitChar n \<noteq> CHR 0x0A"
proof -
  assume "n < 10"
  then have "n \<in> {0,1,2,3,4,5,6,7,8,9}" by auto
  then show ?thesis by (auto simp: nth_Cons')
qed

lemma formatUint_ok: "CHR 0x0A \<notin> set (formatUint n)"
proof (induction n rule: formatUint.induct)
  case (1 n)
  show ?case
  proof (cases "n < 10")
    case True
    then show ?thesis
      using digitChar_ok[of n] by (subst formatUint.simps) (simp del: digitChar.simps)
  next
    case False
    then have "n mod 10 < 10" by simp
    with 1 False show ?thesis
      using digitChar_ok[of "n mod 10"]
      by (subst formatUint.simps) (simp del: digitChar.simps formatUint.simps)
  qed
qed

lemma formatInt_ok: "CHR 0x0A \<notin> set (formatInt i)"
  by (simp add: formatInt_def formatUint_ok del: formatUint.simps)

lemma onoff_ok: "CHR 0x0A \<notin> set (onoff b)"
  by (simp add: onoff_def)

lemma rangeLines_ok:
  "CHR 0x0A \<notin> set key \<Longrightarrow> list_all (\<lambda>v. CHR 0x0A \<notin> set v) vs \<Longrightarrow>
     list_all (\<lambda>l. CHR 0x0A \<notin> set l) (rangeLines key vs)"
  by (induction vs) (simp_all add: rangeLines_def)

lemma joined_ok:
  "list_all (\<lambda>v. CHR 0x0A \<notin> set v) (concat vss) \<Longrightarrow>
     list_all (\<lambda>v. CHR 0x0A \<notin> set v) (map (\<lambda>v. join v '':'') vss)"
  by (induction vss) (simp_all add: join_ok)

lemma mapIndex_ok:
  "list_all (\<lambda>v. CHR 0x0A \<notin> set v) (map snd m) \<Longrightarrow> CHR 0x0A \<notin> set (mapIndex m k)"
proof (cases "map_of m k")
  case None
  then show ?thesis by (simp add: mapIndex_def)
next
  case (Some v)
  assume a: "list_all (\<lambda>v. CHR 0x0A \<notin> set v) (map snd m)"
  from Some have "(k, v) \<in> set m" by (rule map_of_SomeD)
  then have "v \<in> set (map snd m)" by force
  with a have "CHR 0x0A \<notin> set v" by (auto simp: list_all_iff)
  with Some show ?thesis by (simp add: mapIndex_def)
qed

lemma environmentLines_ok:
  assumes "list_all (\<lambda>v. CHR 0x0A \<notin> set v) (map fst m)"
    and "list_all (\<lambda>v. CHR 0x0A \<notin> set v) (map snd m)"
  shows "list_all (\<lambda>l. CHR 0x0A \<notin> set l) (environmentLines m)"
proof -
  have "CHR 0x0A \<notin> set k" if "k \<in> set (sortKeys m)" for k
    using that assms(1) by (auto simp: sortKeys_def list_all_iff)
  then show ?thesis
    using mapIndex_ok[OF assms(2)]
    by (simp add: environmentLines_def list_all_iff)
qed

lemma execLines_ok:
  "noLineBreak c \<Longrightarrow> list_all (\<lambda>l. CHR 0x0A \<notin> set l) (execLines c)"
  by (simp add: noLineBreak_def printedValues_def execLines_def join_ok formatUint_ok
      formatInt_ok onoff_ok environmentLines_ok del: formatUint.simps)

lemma filesLines_ok:
  "noLineBreak c \<Longrightarrow> list_all (\<lambda>l. CHR 0x0A \<notin> set l) (filesLines c)"
  by (simp add: noLineBreak_def printedValues_def filesLines_def onoff_ok rangeLines_ok
      joined_ok)

lemma networkLines_ok:
  "noLineBreak c \<Longrightarrow> list_all (\<lambda>l. CHR 0x0A \<notin> set l) (networkLines c)"
  by (simp add: noLineBreak_def printedValues_def networkLines_def onoff_ok rangeLines_ok
      join_ok)

lemma splitLines_render: "noLineBreak c \<Longrightarrow> splitLines (render c) = unitLines c"
  unfolding render_def
  by (rule splitLines_unlines)
    (simp add: unitLines_def execLines_ok filesLines_ok networkLines_ok)

lemma unlines_ends: "ls \<noteq> [] \<Longrightarrow> \<exists>a. unlines ls = a @ [CHR 0x0A]"
  by (cases ls rule: rev_cases) (simp_all add: unlines_def)

lemma unlines_holds_line:
  assumes "l \<in> set (tl ls)"
  shows "\<exists>a b. unlines ls = a @ CHR 0x0A # l @ CHR 0x0A # b"
proof -
  from assms obtain x xs where ls: "ls = x # xs" and "l \<in> set xs"
    by (cases ls) auto
  then obtain ys zs where xs: "xs = ys @ l # zs"
    by (auto dest: split_list)
  obtain a where a: "unlines (x # ys) = a @ [CHR 0x0A]"
    using unlines_ends[of "x # ys"] by auto
  have "unlines ls = unlines (x # ys) @ l @ CHR 0x0A # unlines zs"
    by (simp add: ls xs unlines_def)
  then have "unlines ls = a @ CHR 0x0A # l @ CHR 0x0A # unlines zs"
    by (simp add: a)
  then show ?thesis by blast
qed

lemma render_holds_line:
  "l \<in> set (tl (unitLines c)) \<Longrightarrow> \<exists>a b. render c = a @ CHR 0x0A # l @ CHR 0x0A # b"
  unfolding render_def by (rule unlines_holds_line)













lemma unlines_environmentLines:
  "unlines (environmentLines m) =
     concat (map (\<lambda>k. ''Environment='' @ k @ ''='' @ the (map_of m k) @ [CHR 0x0A])
       (sorted_list_of_set (dom (map_of m))))"
  by (simp only: environmentLines_entries unlines_def map_map comp_def append_assoc)

lemma render_Environment_text:
  "\<exists>rest. render c =
     ''[Exec]'' @ CHR 0x0A # ''Boot='' @ onoff (Boot c) @ CHR 0x0A
       # ''Ephemeral='' @ onoff (Ephemeral c) @ CHR 0x0A
       # ''ProcessTwo='' @ onoff (ProcessTwo c) @ CHR 0x0A
       # ''Parameters='' @ join (Parameters c) '','' @ CHR 0x0A
       # concat (map (\<lambda>k. ''Environment='' @ k @ ''='' @ the (map_of (Environment c) k)
                     @ [CHR 0x0A])
           (sorted_list_of_set (dom (map_of (Environment c)))))
       @ ''User='' @ User c @ CHR 0x0A # rest"
proof -
  obtain T where e: "execLines c =
      [''[Exec]'', ''Boot='' @ onoff (Boot c), ''Ephemeral='' @ onoff (Ephemeral c),
       ''ProcessTwo='' @ onoff (ProcessTwo c), ''Parameters='' @ join (Parameters c) '','']
      @ environmentLines (Environment c)
      @ (''User='' @ User c) # T"
    by (simp add: execLines_def del: formatUint.simps)
  have r: "render c = unlines (execLines c) @ unlines (filesLines c @ networkLines c)"
    by (simp add: render_def unitLines_def unlines_append)
  have "render c =
     ''[Exec]'' @ CHR 0x0A # ''Boot='' @ onoff (Boot c) @ CHR 0x0A
       # ''Ephemeral='' @ onoff (Ephemeral c) @ CHR 0x0A
       # ''ProcessTwo='' @ onoff (ProcessTwo c) @ CHR 0x0A
       # ''Parameters='' @ join (Parameters c) '','' @ CHR 0x0A
       # concat (map (\<lambda>k. ''Environment='' @ k @ ''='' @ the (map_of (Environment c) k)
                     @ [CHR 0x0A])
           (sorted_list_of_set (dom (map_of (Environment c)))))
       @ ''User='' @ User c @ CHR 0x0A # (unlines T @ unlines (filesLines c @ networkLines c))"
    by (subst r, subst e)
      (simp add: unlines_append unlines_Cons unlines_environmentLines del: formatUint.simps)
  then show ?thesis by blast
qed

lemma filter_key_environmentLines_other:
  "k \<noteq> ''Environment'' \<Longrightarrow> filter (\<lambda>l. lineKey l = k) (environmentLines m) = []"
proof -
  assume k: "k \<noteq> ''Environment''"
  have key: "lineKey (''Environment='' @ x @ ''='' @ mapIndex m x) = ''Environment''" for x
    using lineKey_key[of "''Environment''"] by simp
  have "filter (\<lambda>l. lineKey l = k) (map (\<lambda>k. ''Environment='' @ k @ ''='' @ mapIndex m k) ks) = []"
    for ks
    using k by (induction ks) (simp_all only: list.map filter.simps key, auto)
  then show ?thesis
    unfolding environmentLines_def .
qed

lemma KillSignal_lines:
  "filter (\<lambda>l. lineKey l = ''KillSignal'') (unitLines c)
     = [''KillSignal='' @ formatUint (unat (KillSignal c))]"
proof -
  have e: "filter (\<lambda>l. lineKey l = ''KillSignal'') (execLines c)
      = [''KillSignal='' @ formatUint (unat (KillSignal c))]"
  proof -
    have k: "filter (\<lambda>l. lineKey l = ''KillSignal'') (environmentLines (Environment c)) = []"
      by (rule filter_key_environmentLines_other) simp
    show ?thesis
      unfolding execLines_def filter_append k
      by (simp add: lineKey_def del: formatUint.simps)
  qed
  have f: "filter (\<lambda>l. lineKey l = ''KillSignal'') (filesLines c) = []"
    unfolding filesLines_def filter_append
    by (simp add: filter_key_rangeLines) (simp add: lineKey_def)
  have n: "filter (\<lambda>l. lineKey l = ''KillSignal'') (networkLines c) = []"
    unfolding networkLines_def filter_append
    by (simp add: filter_key_rangeLines) (simp add: lineKey_def)
  show ?thesis
    unfolding unitLines_def filter_append e f n by simp
qed

lemma OOMScoreAdjust_lines:
  "filter (\<lambda>l. lineKey l = ''OOMScoreAdjust'') (unitLines c)
     = [''OOMScoreAdjust='' @ formatInt (sint (OOMScoreAdjust c))]"
proof -
  have e: "filter (\<lambda>l. lineKey l = ''OOMScoreAdjust'') (execLines c)
      = [''OOMScoreAdjust='' @ formatInt (sint (OOMScoreAdjust c))]"
  proof -
    have k: "filter (\<lambda>l. lineKey l = ''OOMScoreAdjust'') (environmentLines (Environment c)) = []"
      by (rule filter_key_environmentLines_other) simp
    show ?thesis
      unfolding execLines_def filter_append k
      by (simp add: lineKey_def del: formatUint.simps)
  qed
  have f: "filter (\<lambda>l. lineKey l = ''OOMScoreAdjust'') (filesLines c) = []"
    unfolding filesLines_def filter_append
    by (simp add: filter_key_rangeLines) (simp add: lineKey_def)
  have n: "filter (\<lambda>l. lineKey l = ''OOMScoreAdjust'') (networkLines c) = []"
    unfolding networkLines_def filter_append
    by (simp add: filter_key_rangeLines) (simp add: lineKey_def)
  show ?thesis
    unfolding unitLines_def filter_append e f n by simp
qed

section \<open>The wait for the transfer and \<open>CreateMachine\<close>\<close>

lemma found_iff: "found ts tid \<longleftrightarrow> tid \<in> set ts"
  by (induction ts) auto

lemma waitTransfer_returns_only_if:
  assumes "waitTransfer ls tid i = Some r"
  shows "\<exists>j\<ge>i. (case ls j of Inl err \<Rightarrow> True | Inr ts \<Rightarrow> \<not> found ts tid)"
proof (rule waitTransfer.raw_induct[where
      P = "\<lambda>ls tid i r. \<exists>j\<ge>i. (case ls j of Inl err \<Rightarrow> True | Inr ts \<Rightarrow> \<not> found ts tid)",
      OF _ assms])
  fix wt ls tid i r
  assume ih: "\<And>ls tid i r. wt ls tid i = Some r \<Longrightarrow>
      \<exists>j\<ge>i. (case ls j of Inl err \<Rightarrow> True | Inr ts \<Rightarrow> \<not> found ts tid)"
    and body: "(case ls i of Inl err \<Rightarrow> Some (Some err)
      | Inr ts \<Rightarrow> if found ts tid then wt ls tid (Suc i) else Some None) = Some r"
  show "\<exists>j\<ge>i. (case ls j of Inl err \<Rightarrow> True | Inr ts \<Rightarrow> \<not> found ts tid)"
  proof (cases "ls i")
    case (Inl e)
    then show ?thesis by (intro exI[of _ i]) simp
  next
    case (Inr ts)
    show ?thesis
    proof (cases "found ts tid")
      case True
      from body Inr True have "wt ls tid (Suc i) = Some r" by simp
      from ih[OF this] obtain j where "j \<ge> Suc i"
        "(case ls j of Inl err \<Rightarrow> True | Inr ts \<Rightarrow> \<not> found ts tid)"
        by blast
      then show ?thesis by (intro exI[of _ j]) simp
    next
      case False
      with Inr show ?thesis by (intro exI[of _ i]) simp
    qed
  qed
qed

lemma waitTransfer_stuck:
  assumes "\<And>j. \<exists>ts. ls j = Inr ts \<and> found ts tid"
  shows "waitTransfer ls tid i = None"
proof (rule ccontr)
  assume "waitTransfer ls tid i \<noteq> None"
  then obtain r where "waitTransfer ls tid i = Some r" by auto
  from waitTransfer_returns_only_if[OF this] obtain j where
    "case ls j of Inl err \<Rightarrow> True | Inr ts \<Rightarrow> \<not> found ts tid" by blast
  with assms[of j] show False by auto
qed

lemma waitTransfer_returns:
  assumes "case ls (i + n) of Inl err \<Rightarrow> True | Inr ts \<Rightarrow> \<not> found ts tid"
  shows "\<exists>r. waitTransfer ls tid i = Some r"
  using assms
proof (induction n arbitrary: i)
  case 0
  then show ?case
    by (subst waitTransfer.simps) (auto split: sum.splits)
next
  case (Suc n)
  from Suc.prems have "case ls (Suc i + n) of Inl err \<Rightarrow> True | Inr ts \<Rightarrow> \<not> found ts tid"
    by simp
  from Suc.IH[OF this] obtain r where "waitTransfer ls tid (Suc i) = Some r" by blast
  then show ?case
    by (subst waitTransfer.simps) (auto split: sum.splits)
qed

lemma wait_good: "waitTransfer (listTransfers (goodWorld job)) 7 0 = Some None"
proof -
  have "waitTransfer (listTransfers (goodWorld job)) 7 (Suc 0) = Some None"
    by (subst waitTransfer.simps) (simp add: goodWorld_def)
  then show ?thesis
    by (subst waitTransfer.simps) (simp add: goodWorld_def)
qed

lemma wait_stuck: "waitTransfer (listTransfers stuckWorld) 7 0 = None"
  by (rule waitTransfer_stuck) (simp add: stuckWorld_def goodWorld_def)

lemma machineName_webTask: "machineName webTask = ''web_api-a1''"
  by (simp add: machineName_def webTask_def replaceSlash_def)

lemma render_take: "render tc = take (length (render tc)) (render tc)"
  by simp

lemma CreateMachine_good:
  "CreateMachine (goodWorld job) emptyHost webTask testData =
     Some ((None, None),
       \<lparr> imageStore = [(''web_api-a1'', Image testData)],
         files = [''/etc/systemd/nspawn/web_api-a1'' \<mapsto> result],
         startedUnits = [''systemd-nspawn@web_api-a1.service''],
         errorLog = (if job \<noteq> ''done'' then [''Start machine unit failed''] else []) \<rparr>)"
proof -
  have r: "render testData = result"
    by (simp only: render_def result_def testData_lines)
  have p: "pullRaw (goodWorld job) (Image testData) ''web_api-a1'' = Inr 7"
    by (simp add: goodWorld_def)
  have rest: "osCreate (goodWorld job) p = None" "tmplExecute (goodWorld job) = None"
    "startUnit (goodWorld job) u = None" "jobResult (goodWorld job) = job" for p u
    by (simp_all add: goodWorld_def)
  show ?thesis
    unfolding CreateMachine_def machineName_webTask Let_def p sum.case wait_good
      option.case rest r
    by (simp add: emptyHost_def nspawnPath_def serviceName_def)
qed

lemma wait_refused: "waitTransfer (listTransfers refusedWorld) 7 0 = Some None"
  using wait_good[of "''done''"] by (simp add: refusedWorld_def)

lemma CreateMachine_refused:
  "CreateMachine refusedWorld emptyHost webTask testData =
     Some ((None, Some (Error ''refused'')),
       \<lparr> imageStore = [(''web_api-a1'', Image testData)],
         files = [''/etc/systemd/nspawn/web_api-a1'' \<mapsto> result],
         startedUnits = [],
         errorLog = [''Create machine unit failed''] \<rparr>)"
proof -
  have r: "render testData = result"
    by (simp only: render_def result_def testData_lines)
  have p: "pullRaw refusedWorld (Image testData) ''web_api-a1'' = Inr 7"
    by (simp add: refusedWorld_def goodWorld_def)
  have rest: "osCreate refusedWorld p = None" "tmplExecute refusedWorld = None"
    "startUnit refusedWorld u = Some (Error ''refused'')" for p u
    by (simp_all add: refusedWorld_def goodWorld_def)
  show ?thesis
    unfolding CreateMachine_def machineName_webTask Let_def p sum.case wait_refused
      option.case rest r
    by (simp add: emptyHost_def nspawnPath_def)
qed

lemma CreateMachine_noImage:
  "CreateMachine noImageWorld emptyHost webTask testData =
     Some ((None, Some (Error ''no such image'')), emptyHost)"
  by (simp add: CreateMachine_def noImageWorld_def goodWorld_def)

lemma CreateMachine_machine_nil:
  "CreateMachine w h cfg tc = Some ((m, e), h') \<Longrightarrow> m = None"
  by (auto simp: CreateMachine_def Let_def split: sum.splits option.splits if_splits)

lemma CreateMachine_job_not_checked:
  "map_option fst (CreateMachine (w\<lparr>jobResult := j\<rparr>) h cfg tc)
     = map_option fst (CreateMachine w h cfg tc)"
  by (simp add: CreateMachine_def Let_def split: sum.splits option.splits)

section \<open>Machine names\<close>

lemma replaceSlash_length: "length (replaceSlash n) = length n"
  by (simp add: replaceSlash_def)

lemma replaceSlash_nth:
  "i < length n \<Longrightarrow> replaceSlash n ! i = (if n ! i = CHR ''/'' then CHR ''_'' else n ! i)"
  by (simp add: replaceSlash_def)

lemma machineName_same_task:
  "TaskName a = TaskName b \<Longrightarrow> machineName a = machineName b \<longleftrightarrow> AllocID a = AllocID b"
  by (simp add: machineName_def)

lemma machineName_same_length:
  assumes "length (AllocID a) = length (AllocID b)" and "machineName a = machineName b"
  shows "AllocID a = AllocID b"
proof -
  have "length (replaceSlash (TaskName a) @ ''-'') = length (replaceSlash (TaskName b) @ ''-'')"
    using assms(1) arg_cong[OF assms(2), of length] by (simp add: machineName_def)
  moreover have "(replaceSlash (TaskName a) @ ''-'') @ AllocID a
      = (replaceSlash (TaskName b) @ ''-'') @ AllocID b"
    using assms(2) by (simp add: machineName_def)
  ultimately show ?thesis
    by (metis append_eq_append_conv)
qed

section \<open>The registry's transitions\<close>

lemma movesForward_cases:
  "movesForward old new \<longleftrightarrow>
     (old = MachineStateOpening \<and> new = MachineStateRunning)
     \<or> (old = MachineStateOpening \<and> new = MachineStateClosing)
     \<or> (old = MachineStateRunning \<and> new = MachineStateClosing)"
  by (auto simp: movesForward_def stateRank_def MachineStateOpening_def
      MachineStateRunning_def MachineStateClosing_def split: option.splits if_splits)

lemma transition_accepts:
  "transition reg name new = Inr reg' \<Longrightarrow>
     \<exists>m. reg name = Some m \<and> movesForward (State m) new \<and> reg' = reg(name \<mapsto> m\<lparr>State := new\<rparr>)"
  by (auto simp: transition_def split: option.splits if_splits)

lemma transition_rejects:
  "reg name = Some m \<Longrightarrow> \<not> movesForward (State m) new \<Longrightarrow>
     transition reg name new = Inl InvalidStateTransition"
  by (simp add: transition_def)

section \<open>Claims about the renderer\<close>

text \<open>
  C1. The configuration of \<open>TestTemplate\<close> (boot on, parameters 1, 2, 3, environment
  a=b and 1=2, user abc, capabilities 1, 2, 3, kill signal 127, OOM score 1, overlays
  1:2:3 and 2:4:6, every other field zero) renders as the text \<open>result\<close> of the test.
  Its \<open>Interface\<close> field is empty, yet the network section holds the line
  \<open>Interface=1 2 3\<close> and no line \<open>Interface=\<close>: the template joins \<open>.Parameters\<close>
  on that line.
\<close>

theorem render_testData:
  "render testData = result \<and> Interface testData = []
   \<and> ''Interface=1 2 3'' \<in> set (unitLines testData)
   \<and> ''Interface='' \<notin> set (unitLines testData)"
proof -
  have "render testData = result"
    by (simp only: render_def result_def testData_lines)
  moreover have "Interface testData = []"
    by (simp add: testData_def zeroTaskConfig_def)
  moreover have "''Interface=1 2 3'' \<in> set (unitLines testData)"
    unfolding testData_lines by simp
  moreover have "''Interface='' \<notin> set (unitLines testData)"
    unfolding testData_lines by simp
  ultimately show ?thesis by blast
qed

text \<open>
  C2. The renderer is a function of the configuration, so two runs on the same value
  give the same text. The iteration order of the environment map does not reach the
  output: two entry lists that denote the same map render to the same text. In the
  rendered text, right after the \<open>Parameters\<close> line and right before the \<open>User\<close>
  line, stands \<open>Environment=key=value\<close> with a line break once for each entry of the
  map, in ascending order of the keys. When no written value holds a line break,
  these are exactly the lines of the text that belong to the \<open>Environment\<close>
  directive.
\<close>

theorem render_independent_of_map_order:
  "(map_of e = map_of (Environment c) \<longrightarrow> render (c\<lparr>Environment := e\<rparr>) = render c)
   \<and> (\<exists>rest. render c =
     ''[Exec]'' @ CHR 0x0A # ''Boot='' @ onoff (Boot c) @ CHR 0x0A
       # ''Ephemeral='' @ onoff (Ephemeral c) @ CHR 0x0A
       # ''ProcessTwo='' @ onoff (ProcessTwo c) @ CHR 0x0A
       # ''Parameters='' @ join (Parameters c) '','' @ CHR 0x0A
       # concat (map (\<lambda>k. ''Environment='' @ k @ ''='' @ the (map_of (Environment c) k)
                     @ [CHR 0x0A])
           (sorted_list_of_set (dom (map_of (Environment c)))))
       @ ''User='' @ User c @ CHR 0x0A # rest)
   \<and> (noLineBreak c \<longrightarrow>
        filter (\<lambda>l. lineKey l = ''Environment'') (splitLines (render c)) =
          map (\<lambda>k. ''Environment='' @ k @ ''='' @ the (map_of (Environment c) k))
            (sorted_list_of_set (dom (map_of (Environment c)))))"
proof -
  have "noLineBreak c \<longrightarrow>
        filter (\<lambda>l. lineKey l = ''Environment'') (splitLines (render c)) =
          map (\<lambda>k. ''Environment='' @ k @ ''='' @ the (map_of (Environment c) k))
            (sorted_list_of_set (dom (map_of (Environment c))))"
    using Environment_lines[of c] environmentLines_entries[of "Environment c"]
    by (simp add: splitLines_render)
  then show ?thesis
    using render_Environment[of e c] render_Environment_text[of c] by blast
qed

theorem render_independent_of_map_order_witness:
  "map_of [(''1'', ''2''), (''a'', ''b'')] = map_of (Environment testData)
   \<and> render (testData\<lparr>Environment := [(''1'', ''2''), (''a'', ''b'')]\<rparr>) = render testData
   \<and> noLineBreak testData
   \<and> filter (\<lambda>l. lineKey l = ''Environment'') (splitLines (render testData))
       = [''Environment=1=2'', ''Environment=a=b'']"
proof -
  have h: "map_of [(''1'', ''2''), (''a'', ''b'')] = map_of (Environment testData)"
    by (auto simp: testData_def zeroTaskConfig_def fun_eq_iff)
  have n: "noLineBreak testData"
    by (simp add: noLineBreak_def printedValues_def testData_def zeroTaskConfig_def)
  have v: "environmentLines (Environment testData) = [''Environment=1=2'', ''Environment=a=b'']"
    by (simp add: environmentLines_def sortKeys_def mapIndex_def testData_def zeroTaskConfig_def)
  from render_independent_of_map_order[of "[(''1'', ''2''), (''a'', ''b'')]" testData] h n
  have "render (testData\<lparr>Environment := [(''1'', ''2''), (''a'', ''b'')]\<rparr>) = render testData"
    and "filter (\<lambda>l. lineKey l = ''Environment'') (splitLines (render testData))
       = environmentLines (Environment testData)"
    by (simp_all only: environmentLines_entries simp_thms)
  with h n v show ?thesis by simp
qed

text \<open>
  C7, as the code has it. The zero configuration, in which no integer field was set,
  renders to a text with the lines \<open>KillSignal=0\<close> and \<open>OOMScoreAdjust=0\<close>, and with
  no line \<open>KillSignal=\<close> or \<open>OOMScoreAdjust=\<close> of an empty value.
\<close>

theorem zero_integer_fields_render_zero:
  "KillSignal zeroTaskConfig = 0 \<and> OOMScoreAdjust zeroTaskConfig = 0
   \<and> ''KillSignal=0'' \<in> set (splitLines (render zeroTaskConfig))
   \<and> ''KillSignal='' \<notin> set (splitLines (render zeroTaskConfig))
   \<and> ''OOMScoreAdjust=0'' \<in> set (splitLines (render zeroTaskConfig))
   \<and> ''OOMScoreAdjust='' \<notin> set (splitLines (render zeroTaskConfig))"
proof -
  have n: "noLineBreak zeroTaskConfig"
    by (simp add: noLineBreak_def printedValues_def zeroTaskConfig_def)
  have s: "splitLines (render zeroTaskConfig) = unitLines zeroTaskConfig"
    using n by (rule splitLines_render)
  have "KillSignal zeroTaskConfig = 0 \<and> OOMScoreAdjust zeroTaskConfig = 0"
    by (simp add: zeroTaskConfig_def)
  moreover have "''KillSignal=0'' \<in> set (splitLines (render zeroTaskConfig))"
    unfolding s zero_lines by simp
  moreover have "''KillSignal='' \<notin> set (splitLines (render zeroTaskConfig))"
    unfolding s zero_lines by simp
  moreover have "''OOMScoreAdjust=0'' \<in> set (splitLines (render zeroTaskConfig))"
    unfolding s zero_lines by simp
  moreover have "''OOMScoreAdjust='' \<notin> set (splitLines (render zeroTaskConfig))"
    unfolding s zero_lines by simp
  ultimately show ?thesis by blast
qed

text \<open>
  C7, amended. For every configuration the rendered text holds, on a line of its own,
  \<open>KillSignal=\<close> and \<open>OOMScoreAdjust=\<close> followed by the decimal numerals of the
  fields; when no written value holds a line break, each is the only line of its
  directive. The numeral of a number is never empty and reads back as that number, a
  negative score is the minus sign before the numeral of its magnitude, and zero is
  the text \<open>0\<close>. There is no value of the fields that stands for "unset".
\<close>

theorem integer_fields_render_decimal:
  "(\<exists>a b. render c =
      a @ CHR 0x0A # ''KillSignal='' @ formatUint (unat (KillSignal c)) @ CHR 0x0A # b)
   \<and> (\<exists>a b. render c =
      a @ CHR 0x0A # ''OOMScoreAdjust='' @ formatInt (sint (OOMScoreAdjust c)) @ CHR 0x0A # b)
   \<and> (noLineBreak c \<longrightarrow>
        filter (\<lambda>l. lineKey l = ''KillSignal'') (splitLines (render c))
          = [''KillSignal='' @ formatUint (unat (KillSignal c))]
        \<and> filter (\<lambda>l. lineKey l = ''OOMScoreAdjust'') (splitLines (render c))
          = [''OOMScoreAdjust='' @ formatInt (sint (OOMScoreAdjust c))])
   \<and> decimalValue (formatUint n) = n
   \<and> formatUint n \<noteq> []
   \<and> formatInt i = (if i < 0 then ''-'' @ formatUint (nat (- i)) else formatUint (nat i))
   \<and> formatUint (unat (0 :: 32 word)) = ''0''
   \<and> formatInt (sint (0 :: 64 word)) = ''0''"
proof -
  have k: "\<exists>a b. render c =
      a @ CHR 0x0A # ''KillSignal='' @ formatUint (unat (KillSignal c)) @ CHR 0x0A # b"
    using render_holds_line[of "''KillSignal='' @ formatUint (unat (KillSignal c))" c]
    by (simp add: unitLines_def execLines_def del: formatUint.simps)
  have o: "\<exists>a b. render c =
      a @ CHR 0x0A # ''OOMScoreAdjust='' @ formatInt (sint (OOMScoreAdjust c)) @ CHR 0x0A # b"
    using render_holds_line[of "''OOMScoreAdjust='' @ formatInt (sint (OOMScoreAdjust c))" c]
    by (simp add: unitLines_def execLines_def del: formatUint.simps)
  have l: "noLineBreak c \<longrightarrow>
        filter (\<lambda>l. lineKey l = ''KillSignal'') (splitLines (render c))
          = [''KillSignal='' @ formatUint (unat (KillSignal c))]
        \<and> filter (\<lambda>l. lineKey l = ''OOMScoreAdjust'') (splitLines (render c))
          = [''OOMScoreAdjust='' @ formatInt (sint (OOMScoreAdjust c))]"
  proof
    assume "noLineBreak c"
    then have "splitLines (render c) = unitLines c" by (rule splitLines_render)
    then show "filter (\<lambda>l. lineKey l = ''KillSignal'') (splitLines (render c))
          = [''KillSignal='' @ formatUint (unat (KillSignal c))]
        \<and> filter (\<lambda>l. lineKey l = ''OOMScoreAdjust'') (splitLines (render c))
          = [''OOMScoreAdjust='' @ formatInt (sint (OOMScoreAdjust c))]"
      by (simp only: KillSignal_lines OOMScoreAdjust_lines simp_thms)
  qed
  have f: "formatInt i = (if i < 0 then ''-'' @ formatUint (nat (- i)) else formatUint (nat i))"
    by (simp add: formatInt_def del: formatUint.simps)
  have z: "formatUint (unat (0 :: 32 word)) = ''0''" "formatInt (sint (0 :: 64 word)) = ''0''"
    by (simp_all add: formatInt_def)
  show ?thesis
    using k o l f z decimalValue_formatUint[of n] formatUint_nonempty[of n]
    by (intro conjI)
qed

theorem integer_fields_render_decimal_witness:
  "noLineBreak testData
   \<and> filter (\<lambda>l. lineKey l = ''KillSignal'') (splitLines (render testData)) = [''KillSignal=127'']
   \<and> filter (\<lambda>l. lineKey l = ''OOMScoreAdjust'') (splitLines (render testData))
       = [''OOMScoreAdjust=1'']"
proof -
  have n: "noLineBreak testData"
    by (simp add: noLineBreak_def printedValues_def testData_def zeroTaskConfig_def)
  have v: "''KillSignal='' @ formatUint (unat (KillSignal testData)) = ''KillSignal=127''"
    "''OOMScoreAdjust='' @ formatInt (sint (OOMScoreAdjust testData)) = ''OOMScoreAdjust=1''"
    by (simp_all add: testData_def zeroTaskConfig_def formatInt_def)
  from integer_fields_render_decimal[of testData 0 0] n
  have "filter (\<lambda>l. lineKey l = ''KillSignal'') (splitLines (render testData))
          = [''KillSignal='' @ formatUint (unat (KillSignal testData))]"
    and "filter (\<lambda>l. lineKey l = ''OOMScoreAdjust'') (splitLines (render testData))
          = [''OOMScoreAdjust='' @ formatInt (sint (OOMScoreAdjust testData))]"
    by blast+
  with n show ?thesis by (simp only: v simp_thms)
qed



section \<open>Claims about \<open>CreateMachine\<close>\<close>

text \<open>
  C3, as the code has it. When every listing of the active transfers holds the id of
  the pull, the wait never ends and \<open>CreateMachine\<close> never returns: the loop has no
  deadline and no timeout error.
\<close>

theorem CreateMachine_never_returns_while_transfer_listed:
  "waitTransfer (listTransfers stuckWorld) 7 0 = None
   \<and> CreateMachine stuckWorld emptyHost webTask testData = None"
proof -
  have p: "pullRaw stuckWorld (Image testData) ''web_api-a1'' = Inr 7"
    by (simp add: stuckWorld_def goodWorld_def)
  have "CreateMachine stuckWorld emptyHost webTask testData = None"
    unfolding CreateMachine_def machineName_webTask Let_def p sum.case wait_stuck option.case
    by (rule refl)
  with wait_stuck show ?thesis by blast
qed

text \<open>
  C4, as the code has it. When systemd accepts the start and the job then ends with
  \<open>failed\<close>, \<open>CreateMachine\<close> writes \<open>Start machine unit failed\<close> to the log and
  returns the nil error.
\<close>

theorem CreateMachine_failed_job_returns_no_error:
  "CreateMachine (goodWorld ''failed'') emptyHost webTask testData =
     Some ((None, None),
       \<lparr> imageStore = [(''web_api-a1'', Image testData)],
         files = [''/etc/systemd/nspawn/web_api-a1'' \<mapsto> result],
         startedUnits = [''systemd-nspawn@web_api-a1.service''],
         errorLog = [''Start machine unit failed''] \<rparr>)"
  by (simp add: CreateMachine_good)

text \<open>
  C5, as the code has it. When systemd refuses to start the unit, \<open>CreateMachine\<close>
  returns the error, and the unit file it has written, which did not exist before, and
  the image it has had pulled are still there.
\<close>

theorem CreateMachine_refused_leaves_unit_file:
  "files emptyHost ''/etc/systemd/nspawn/web_api-a1'' = None
   \<and> CreateMachine refusedWorld emptyHost webTask testData =
     Some ((None, Some (Error ''refused'')),
       \<lparr> imageStore = [(''web_api-a1'', Image testData)],
         files = [''/etc/systemd/nspawn/web_api-a1'' \<mapsto> result],
         startedUnits = [],
         errorLog = [''Create machine unit failed''] \<rparr>)"
  using CreateMachine_refused by (simp add: emptyHost_def)

text \<open>
  C5, amended. \<open>CreateMachine\<close> undoes nothing. When it returns an error, it returns
  no machine and no unit was started. If importd rejects the pull, the host is as
  before. Otherwise the image written under the machine's name stays in the image
  store, and: after a failed listing or a failed creation of the unit file the host's
  files are those of before; after a failed write the unit file holds the part of the
  rendered text written before the failure; after a refused start the unit file holds
  the whole rendered text.
\<close>

theorem CreateMachine_error_no_rollback:
  assumes "CreateMachine w h cfg tc = Some ((m, Some err), h')"
  shows "m = None \<and> startedUnits h' = startedUnits h
    \<and> (case pullRaw w (Image tc) (machineName cfg) of
         Inl e \<Rightarrow> err = e \<and> h' = h
       | Inr t \<Rightarrow>
           imageStore h' = imageStore h @ [(machineName cfg, Image tc)]
           \<and> (case waitTransfer (listTransfers w) t 0 of
                None \<Rightarrow> False
              | Some (Some e) \<Rightarrow> err = e \<and> files h' = files h
              | Some None \<Rightarrow>
                  (case osCreate w (nspawnPath (machineName cfg)) of
                     Some e \<Rightarrow> err = e \<and> files h' = files h
                   | None \<Rightarrow>
                       (case tmplExecute w of
                          Some (e, n) \<Rightarrow>
                            err = e
                            \<and> files h' = (files h)(nspawnPath (machineName cfg)
                                  \<mapsto> take n (render tc))
                        | None \<Rightarrow>
                            startUnit w (serviceName (machineName cfg)) = Some err
                            \<and> files h' = (files h)(nspawnPath (machineName cfg)
                                  \<mapsto> render tc)))))"
  using assms
  by (auto simp: CreateMachine_def Let_def
      split: sum.splits option.splits prod.splits if_splits)

theorem CreateMachine_error_no_rollback_witness:
  "CreateMachine refusedWorld emptyHost webTask testData =
     Some ((None, Some (Error ''refused'')),
       \<lparr> imageStore = [(''web_api-a1'', Image testData)],
         files = [''/etc/systemd/nspawn/web_api-a1'' \<mapsto> result],
         startedUnits = [],
         errorLog = [''Create machine unit failed''] \<rparr>)
   \<and> [(''web_api-a1'', Image testData)]
       = imageStore emptyHost @ [(machineName webTask, Image testData)]
   \<and> [''/etc/systemd/nspawn/web_api-a1'' \<mapsto> result]
       = (files emptyHost)(nspawnPath (machineName webTask) \<mapsto> render testData)
   \<and> startUnit refusedWorld (serviceName (machineName webTask)) = Some (Error ''refused'')
   \<and> CreateMachine noImageWorld emptyHost webTask testData =
     Some ((None, Some (Error ''no such image'')), emptyHost)"
proof -
  have p: "pullRaw refusedWorld (Image testData) (machineName webTask) = Inr 7"
    "osCreate refusedWorld (nspawnPath (machineName webTask)) = None"
    "tmplExecute refusedWorld = None"
    "pullRaw noImageWorld (Image testData) (machineName webTask) = Inl (Error ''no such image'')"
    by (simp_all add: refusedWorld_def goodWorld_def noImageWorld_def)
  have r: "render testData = result"
    by (simp only: render_def result_def testData_lines)
  have a: "[(''web_api-a1'', Image testData)]
       = imageStore emptyHost @ [(machineName webTask, Image testData)]"
    by (simp add: emptyHost_def machineName_webTask)
  have b: "[''/etc/systemd/nspawn/web_api-a1'' \<mapsto> result]
       = (files emptyHost)(nspawnPath (machineName webTask) \<mapsto> render testData)"
    by (simp add: emptyHost_def machineName_webTask nspawnPath_def r)
  have c: "startUnit refusedWorld (serviceName (machineName webTask)) = Some (Error ''refused'')"
    using CreateMachine_error_no_rollback[OF CreateMachine_refused]
    unfolding p sum.case wait_refused option.case by blast
  have d: "Error ''no such image'' = Error ''no such image''"
    using CreateMachine_error_no_rollback[OF CreateMachine_noImage]
    unfolding p sum.case by blast
  show ?thesis
    using a b c CreateMachine_refused CreateMachine_noImage by (intro conjI)
qed

text \<open>
  C6. The machine name is the task name with every \<open>/\<close> replaced by \<open>_\<close>, then
  \<open>-\<close>, then the allocation id. It is a function of the two: the same task name and
  allocation id give the same machine name. Different allocation ids give different
  machine names when the task names are the same, and also when the two ids have the
  same length, as the allocation ids of Nomad have, whatever the task names.
\<close>

theorem machineName_properties:
  "machineName a = replaceSlash (TaskName a) @ ''-'' @ AllocID a
   \<and> length (replaceSlash n) = length n
   \<and> (\<forall>i < length n. replaceSlash n ! i = (if n ! i = CHR ''/'' then CHR ''_'' else n ! i))
   \<and> (TaskName a = TaskName b \<and> AllocID a = AllocID b \<longrightarrow> machineName a = machineName b)
   \<and> (TaskName a = TaskName b \<and> AllocID a \<noteq> AllocID b \<longrightarrow> machineName a \<noteq> machineName b)
   \<and> (length (AllocID a) = length (AllocID b) \<and> AllocID a \<noteq> AllocID b
        \<longrightarrow> machineName a \<noteq> machineName b)"
  using machineName_same_task[of a b] machineName_same_length[of a b]
    replaceSlash_length[of n] replaceSlash_nth[of _ n]
  by (auto simp: machineName_def)

theorem machineName_properties_witness:
  "machineName webTask = ''web_api-a1''
   \<and> TaskName webTask = TaskName (webTask\<lparr>AllocID := ''b2''\<rparr>)
   \<and> AllocID webTask \<noteq> AllocID (webTask\<lparr>AllocID := ''b2''\<rparr>)
   \<and> machineName webTask \<noteq> machineName (webTask\<lparr>AllocID := ''b2''\<rparr>)
   \<and> length (AllocID webTask) = length (AllocID \<lparr>TaskName = ''db'', AllocID = ''b2''\<rparr>)
   \<and> AllocID webTask \<noteq> AllocID \<lparr>TaskName = ''db'', AllocID = ''b2''\<rparr>
   \<and> machineName webTask \<noteq> machineName \<lparr>TaskName = ''db'', AllocID = ''b2''\<rparr>
   \<and> replaceSlash ''web/api'' ! 3 = CHR ''_''"
proof -
  have h: "TaskName webTask = TaskName (webTask\<lparr>AllocID := ''b2''\<rparr>)"
    "AllocID webTask \<noteq> AllocID (webTask\<lparr>AllocID := ''b2''\<rparr>)"
    "length (AllocID webTask) = length (AllocID \<lparr>TaskName = ''db'', AllocID = ''b2''\<rparr>)"
    "AllocID webTask \<noteq> AllocID \<lparr>TaskName = ''db'', AllocID = ''b2''\<rparr>"
    "(3::nat) < length ''web/api''" "''web/api'' ! 3 = CHR ''/''"
    by (simp_all add: webTask_def)
  have m: "machineName webTask = ''web_api-a1''"
    using machineName_properties[of webTask "''''" webTask] by (simp add: webTask_def replaceSlash_def)
  show ?thesis
    using h m machineName_properties[of webTask "''web/api''" "webTask\<lparr>AllocID := ''b2''\<rparr>"]
      machineName_properties[of webTask "''web/api''" "\<lparr>TaskName = ''db'', AllocID = ''b2''\<rparr>"]
    by (metis (no_types, lifting))
qed

text \<open>
  C8, as the code has it. When every step succeeds and the job ends with \<open>done\<close>,
  \<open>CreateMachine\<close> returns the nil error and the nil machine: the unit file is
  written and the unit started, but no \<open>Machine\<close> is built.
\<close>

theorem CreateMachine_success_returns_nil_machine:
  "CreateMachine (goodWorld ''done'') emptyHost webTask testData =
     Some ((None, None),
       \<lparr> imageStore = [(''web_api-a1'', Image testData)],
         files = [''/etc/systemd/nspawn/web_api-a1'' \<mapsto> result],
         startedUnits = [''systemd-nspawn@web_api-a1.service''],
         errorLog = [] \<rparr>)"
  by (simp add: CreateMachine_good)

section \<open>Claims about the registry\<close>

text \<open>
  C9. \<open>transition\<close> accepts a change only if it moves forward in the order Opening,
  Running, Closing, and then stores the new state; it rejects with
  \<open>InvalidStateTransition\<close> the change from Running to Opening, every change back in
  the order, every change to the state the machine is in, and every change of a
  machine that is Closing.
\<close>

theorem transition_monotonic:
  "(transition reg name new = Inr reg' \<longrightarrow>
      (\<exists>m. reg name = Some m \<and> reg' = reg(name \<mapsto> m\<lparr>State := new\<rparr>)
         \<and> ((State m = MachineStateOpening \<and> new = MachineStateRunning)
            \<or> (State m = MachineStateOpening \<and> new = MachineStateClosing)
            \<or> (State m = MachineStateRunning \<and> new = MachineStateClosing))))
   \<and> (reg name = Some m \<and> State m = MachineStateRunning \<longrightarrow>
        transition reg name MachineStateOpening = Inl InvalidStateTransition)
   \<and> (reg name = Some m \<and> movesForward new (State m) \<longrightarrow>
        transition reg name new = Inl InvalidStateTransition)
   \<and> (reg name = Some m \<and> State m = new \<longrightarrow>
        transition reg name new = Inl InvalidStateTransition)
   \<and> (reg name = Some m \<and> State m = MachineStateClosing \<longrightarrow>
        transition reg name new = Inl InvalidStateTransition)"
proof -
  have d: "MachineStateOpening \<noteq> MachineStateRunning"
    "MachineStateOpening \<noteq> MachineStateClosing" "MachineStateRunning \<noteq> MachineStateClosing"
    "MachineStateRunning \<noteq> MachineStateOpening"
    "MachineStateClosing \<noteq> MachineStateOpening" "MachineStateClosing \<noteq> MachineStateRunning"
    by (simp_all add: MachineStateOpening_def MachineStateRunning_def MachineStateClosing_def)
  have a: "transition reg name new = Inr reg' \<longrightarrow>
      (\<exists>m. reg name = Some m \<and> reg' = reg(name \<mapsto> m\<lparr>State := new\<rparr>)
         \<and> ((State m = MachineStateOpening \<and> new = MachineStateRunning)
            \<or> (State m = MachineStateOpening \<and> new = MachineStateClosing)
            \<or> (State m = MachineStateRunning \<and> new = MachineStateClosing)))"
  proof
    assume "transition reg name new = Inr reg'"
    from transition_accepts[OF this] obtain m where
      "reg name = Some m" "movesForward (State m) new" "reg' = reg(name \<mapsto> m\<lparr>State := new\<rparr>)"
      by blast
    then show "\<exists>m. reg name = Some m \<and> reg' = reg(name \<mapsto> m\<lparr>State := new\<rparr>)
         \<and> ((State m = MachineStateOpening \<and> new = MachineStateRunning)
            \<or> (State m = MachineStateOpening \<and> new = MachineStateClosing)
            \<or> (State m = MachineStateRunning \<and> new = MachineStateClosing))"
      by (intro exI[of _ m]) (simp add: movesForward_cases)
  qed
  have b: "reg name = Some m \<and> State m = MachineStateRunning \<longrightarrow>
        transition reg name MachineStateOpening = Inl InvalidStateTransition"
    using d by (simp add: transition_def movesForward_cases)
  have c: "reg name = Some m \<and> movesForward new (State m) \<longrightarrow>
        transition reg name new = Inl InvalidStateTransition"
    using d by (auto simp: transition_def movesForward_cases)
  have e: "reg name = Some m \<and> State m = new \<longrightarrow>
        transition reg name new = Inl InvalidStateTransition"
    using d by (auto simp: transition_def movesForward_cases)
  have f: "reg name = Some m \<and> State m = MachineStateClosing \<longrightarrow>
        transition reg name new = Inl InvalidStateTransition"
    using d by (auto simp: transition_def movesForward_cases)
  from a b c e f show ?thesis by (intro conjI)
qed

theorem transition_monotonic_witness:
  "transition [''web_api-a1'' \<mapsto> machineIn MachineStateRunning] ''web_api-a1'' MachineStateClosing
     = Inr [''web_api-a1'' \<mapsto> machineIn MachineStateClosing]
   \<and> transition [''web_api-a1'' \<mapsto> machineIn MachineStateRunning] ''web_api-a1'' MachineStateOpening
     = Inl InvalidStateTransition
   \<and> transition [''web_api-a1'' \<mapsto> machineIn MachineStateRunning] ''web_api-a1'' MachineStateRunning
     = Inl InvalidStateTransition
   \<and> transition [''web_api-a1'' \<mapsto> machineIn MachineStateClosing] ''web_api-a1'' MachineStateRunning
     = Inl InvalidStateTransition
   \<and> transition [''web_api-a1'' \<mapsto> machineIn MachineStateClosing] ''web_api-a1'' MachineStateOpening
     = Inl InvalidStateTransition"
proof -
  define r where "r = [''web_api-a1'' \<mapsto> machineIn MachineStateRunning]"
  define c where "c = [''web_api-a1'' \<mapsto> machineIn MachineStateClosing]"
  have acc: "transition r ''web_api-a1'' MachineStateClosing = Inr c"
    by (simp add: r_def c_def transition_def movesForward_cases machineIn_def)
  have s: "r ''web_api-a1'' = Some (machineIn MachineStateRunning)"
    "c ''web_api-a1'' = Some (machineIn MachineStateClosing)"
    "State (machineIn MachineStateRunning) = MachineStateRunning"
    "State (machineIn MachineStateClosing) = MachineStateClosing"
    by (simp_all add: r_def c_def machineIn_def)
  have "transition r ''web_api-a1'' MachineStateOpening = Inl InvalidStateTransition"
    using s transition_monotonic[of r "''web_api-a1''" MachineStateClosing c "machineIn MachineStateRunning"]
    by simp
  moreover have "transition r ''web_api-a1'' MachineStateRunning = Inl InvalidStateTransition"
    using s transition_monotonic[of r "''web_api-a1''" MachineStateRunning c "machineIn MachineStateRunning"]
    by simp
  moreover have "transition c ''web_api-a1'' MachineStateRunning = Inl InvalidStateTransition"
    using s transition_monotonic[of c "''web_api-a1''" MachineStateRunning c "machineIn MachineStateClosing"]
    by simp
  moreover have "transition c ''web_api-a1'' MachineStateOpening = Inl InvalidStateTransition"
    using s transition_monotonic[of c "''web_api-a1''" MachineStateOpening c "machineIn MachineStateClosing"]
    by simp
  ultimately show ?thesis
    using acc unfolding r_def c_def by (intro conjI)
qed

end
